theory Spec2Isabelle
  imports Main "HOL-Library.AList"
begin

section \<open>JavaScript values\<close>

text \<open>
  The values a parsed JSON request body can hold. A number is kept as an integer: the
  program only tests numbers for truthiness and for not being strings. An object is the
  list of its own properties in insertion order (\<open>JSON.parse\<close> yields distinct keys).
  A JavaScript \<open>undefined\<close> is \<open>None\<close> of \<open>json option\<close>.

  A \<open>char\<close> stands for one code unit of a JavaScript string, in the range 0 to 255.
\<close>

datatype json =
    JNull
  | JBool bool
  | JNum int
  | JStr string
  | JArr "json list"
  | JObj "(string \<times> json) list"

datatype exn = SyntaxError | TypeError | StorageError

text \<open>ToBoolean: \<open>!v\<close> is \<open>\<not> truthy v\<close>.\<close>

fun truthy :: "json option \<Rightarrow> bool" where
  "truthy None = False"
| "truthy (Some JNull) = False"
| "truthy (Some (JBool b)) = b"
| "truthy (Some (JNum n)) = (n \<noteq> 0)"
| "truthy (Some (JStr s)) = (s \<noteq> [])"
| "truthy (Some (JArr xs)) = True"
| "truthy (Some (JObj fs)) = True"

fun typeof :: "json option \<Rightarrow> string" where
  "typeof None = ''undefined''"
| "typeof (Some JNull) = ''object''"
| "typeof (Some (JBool b)) = ''boolean''"
| "typeof (Some (JNum n)) = ''number''"
| "typeof (Some (JStr s)) = ''string''"
| "typeof (Some (JArr xs)) = ''object''"
| "typeof (Some (JObj fs)) = ''object''"

text \<open>
  Reading the property \<open>content\<close> or \<open>author\<close> in \<open>const { content, author } = body\<close>:
  destructuring \<open>null\<close> throws a TypeError, an object gives its property or
  \<open>undefined\<close>, and a boolean, number, string or array has neither property.
\<close>

fun get_property :: "json \<Rightarrow> string \<Rightarrow> exn + json option" where
  "get_property JNull k = Inl TypeError"
| "get_property (JObj fs) k = Inr (map_of fs k)"
| "get_property (JBool b) k = Inr None"
| "get_property (JNum n) k = Inr None"
| "get_property (JStr s) k = Inr None"
| "get_property (JArr xs) k = Inr None"

text \<open>The string held by a value whose \<open>typeof\<close> is \<open>string\<close>.\<close>

fun string_of :: "json option \<Rightarrow> string" where
  "string_of (Some (JStr s)) = s"
| "string_of v = []"

text \<open>\<open>v || d\<close>\<close>

definition or_else :: "json option \<Rightarrow> json \<Rightarrow> json" where
  "or_else v d = (case v of None \<Rightarrow> d | Some x \<Rightarrow> if truthy v then x else d)"

text \<open>
  \<open>String.prototype.trim\<close>: the white space and line terminators among the code units
  below 256 are TAB, LF, VT, FF, CR, SP and NBSP.
\<close>

definition is_whitespace :: "char \<Rightarrow> bool" where
  "is_whitespace c =
     (c = CHR 0x09 \<or> c = CHR 0x0A \<or> c = CHR 0x0B \<or> c = CHR 0x0C \<or> c = CHR 0x0D \<or>
      c = CHR 0x20 \<or> c = CHR 0xA0)"

definition trim :: "string \<Rightarrow> string" where
  "trim s = rev (dropWhile is_whitespace (rev (dropWhile is_whitespace s)))"

text \<open>\<open>s.endsWith(t)\<close>\<close>

definition endsWith :: "string \<Rightarrow> string \<Rightarrow> bool" where
  "endsWith s t = (length t \<le> length s \<and> drop (length s - length t) s = t)"

section \<open>Data model\<close>

record Atom =
  atom_id :: string
  atom_content :: string
  atom_timestamp :: int
  atom_author :: json

record LiveBlogMetadata =
  meta_id :: string
  meta_name :: string
  meta_createdAt :: int

text \<open>The session metadata \<open>{ id: string }\<close>, also the attachment of a connection.\<close>

record Session =
  session_id :: string

text \<open>A WebSocket object, by identity.\<close>

type_synonym ws = nat

text \<open>
  A text produced by the program: a literal, or \<open>JSON.stringify\<close> of a value. The
  serialised text is represented by the value it was made from.
\<close>

datatype payload = Text string | JSON_stringify json

definition atom_json :: "Atom \<Rightarrow> json" where
  "atom_json a =
     JObj [(''id'', JStr (atom_id a)), (''content'', JStr (atom_content a)),
           (''timestamp'', JNum (atom_timestamp a)), (''author'', atom_author a)]"

definition metadata_json :: "LiveBlogMetadata \<Rightarrow> json" where
  "metadata_json m =
     JObj [(''id'', JStr (meta_id m)), (''name'', JStr (meta_name m)),
           (''createdAt'', JNum (meta_createdAt m))]"

text \<open>
  What the platform observes of the actor, in order: a committed write of one of the two
  storage keys, and an attempt to send on a connection with whether it went through.
\<close>

datatype effect =
    PutAtoms "Atom list"
  | PutMetadata LiveBlogMetadata
  | Send ws payload bool

text \<open>
  \<open>this.ctx\<close>: the identifier of the actor, the two keys of its durable storage, the
  connections accepted for hibernation that are still open, each with its serialised
  attachment, the automatic response pair, and the effects so far. All of it outlives
  the actor instance.
\<close>

record DurableObjectState =
  id_toString :: string
  storage_atoms :: "Atom list option"
  storage_metadata :: "LiveBlogMetadata option"
  webSockets :: "(ws \<times> Session option) list"
  autoResponse :: "(string \<times> string) option"
  effects :: "effect list"

text \<open>
  The actor instance. \<open>sessions\<close> is a JavaScript \<open>Map\<close>: an association list in
  insertion order, written with \<open>AList.update\<close> (\<open>set\<close>) and \<open>AList.delete\<close>
  (\<open>delete\<close>), which keep its keys distinct.
\<close>

record LiveBlog =
  ctx :: DurableObjectState
  sessions :: "(ws \<times> Session) list"

text \<open>
  What one call draws from outside the actor: \<open>crypto.randomUUID()\<close>, \<open>Date.now()\<close>,
  the two ends of \<open>new WebSocketPair()\<close>, and which storage reads, storage writes and
  sends throw during the call.
\<close>

record env =
  randomUUID :: string
  now :: int
  pair_client :: ws
  pair_server :: ws
  get_fails :: "string \<Rightarrow> bool"
  put_fails :: "string \<Rightarrow> bool"
  send_fails :: "ws \<Rightarrow> bool"

text \<open>
  A request: its method, the path of its URL, \<open>headers.get('Upgrade')\<close>, and what
  \<open>request.json()\<close> resolves to (\<open>None\<close> when it rejects).
\<close>

record request =
  req_method :: string
  pathname :: string
  upgrade :: "string option"
  json_body :: "json option"

record response =
  status :: nat
  body :: "payload option"
  content_type :: "string option"
  webSocket :: "ws option"

definition text_response :: "nat \<Rightarrow> string \<Rightarrow> response" where
  "text_response st t =
     \<lparr>status = st, body = Some (Text t), content_type = None, webSocket = None\<rparr>"

definition json_response :: "nat \<Rightarrow> json \<Rightarrow> response" where
  "json_response st j =
     \<lparr>status = st, body = Some (JSON_stringify j),
      content_type = Some ''application/json'', webSocket = None\<rparr>"

section \<open>The LiveBlog actor\<close>

subsection \<open>constructor\<close>

definition restore :: "(ws \<times> Session) list \<Rightarrow> ws \<times> Session option \<Rightarrow> (ws \<times> Session) list" where
  "restore m p = (case snd p of None \<Rightarrow> m | Some attachment \<Rightarrow> AList.update (fst p) attachment m)"

definition constructor :: "DurableObjectState \<Rightarrow> LiveBlog" where
  "constructor c =
     \<lparr>ctx = c\<lparr>autoResponse := Some (''ping'', ''pong'')\<rparr>,
      sessions = foldl restore [] (webSockets c)\<rparr>"

subsection \<open>handleWebSocketUpgrade\<close>

definition acceptWebSocket :: "ws \<Rightarrow> DurableObjectState \<Rightarrow> DurableObjectState" where
  "acceptWebSocket server c = c\<lparr>webSockets := AList.update server None (webSockets c)\<rparr>"

definition serializeAttachment :: "ws \<Rightarrow> Session \<Rightarrow> DurableObjectState \<Rightarrow> DurableObjectState" where
  "serializeAttachment server a c = c\<lparr>webSockets := AList.update server (Some a) (webSockets c)\<rparr>"

definition handleWebSocketUpgrade :: "env \<Rightarrow> request \<Rightarrow> LiveBlog \<Rightarrow> response \<times> LiveBlog" where
  "handleWebSocketUpgrade e req s =
     (let upgradeHeader = upgrade req in
      if upgradeHeader = None \<or> upgradeHeader = Some [] \<or> upgradeHeader \<noteq> Some ''websocket''
      then (text_response 426 ''Expected Upgrade: websocket'', s)
      else if req_method req \<noteq> ''GET''
      then (text_response 400 ''Expected GET method'', s)
      else
        let client = pair_client e;
            server = pair_server e;
            c1 = acceptWebSocket server (ctx s);
            sessionId = randomUUID e;
            c2 = serializeAttachment server \<lparr>session_id = sessionId\<rparr> c1
        in (\<lparr>status = 101, body = None, content_type = None, webSocket = Some client\<rparr>,
            \<lparr>ctx = c2, sessions = AList.update server \<lparr>session_id = sessionId\<rparr> (sessions s)\<rparr>))"

subsection \<open>getAllAtoms, storeAtom, handleGetAtoms\<close>

text \<open>\<open>atoms || []\<close>: an array, also the empty one, is truthy.\<close>

definition or_empty :: "Atom list option \<Rightarrow> Atom list" where
  "or_empty v = (case v of None \<Rightarrow> [] | Some atoms \<Rightarrow> atoms)"

definition getAllAtoms :: "env \<Rightarrow> DurableObjectState \<Rightarrow> exn + Atom list" where
  "getAllAtoms e c =
     (if get_fails e ''atoms'' then Inl StorageError
      else Inr (or_empty (storage_atoms c)))"

definition storeAtom :: "env \<Rightarrow> Atom \<Rightarrow> DurableObjectState \<Rightarrow> exn + DurableObjectState" where
  "storeAtom e atom c =
     (case getAllAtoms e c of
        Inl x \<Rightarrow> Inl x
      | Inr atoms \<Rightarrow>
          if put_fails e ''atoms'' then Inl StorageError
          else Inr (c\<lparr>storage_atoms := Some (atoms @ [atom]),
                      effects := effects c @ [PutAtoms (atoms @ [atom])]\<rparr>))"

definition handleGetAtoms :: "env \<Rightarrow> LiveBlog \<Rightarrow> exn + response" where
  "handleGetAtoms e s =
     (case getAllAtoms e (ctx s) of
        Inl x \<Rightarrow> Inl x
      | Inr atoms \<Rightarrow> Inr (json_response 200 (JObj [(''atoms'', JArr (map atom_json atoms))])))"

subsection \<open>broadcastAtom\<close>

definition message_of :: "Atom \<Rightarrow> payload" where
  "message_of atom = JSON_stringify (JObj [(''type'', JStr ''new_atom''), (''atom'', atom_json atom)])"

text \<open>
  \<open>this.sessions.forEach\<close>. The callback deletes at most the entry it is visiting, so
  every entry present at the start is visited once, in insertion order. The error logged
  to the console is left out.
\<close>

fun forEach_send :: "env \<Rightarrow> payload \<Rightarrow> (ws \<times> Session) list \<Rightarrow> LiveBlog \<Rightarrow> LiveBlog" where
  "forEach_send e message [] s = s"
| "forEach_send e message ((w, session) # rest) s =
     forEach_send e message rest
       (if send_fails e w
        then s\<lparr>ctx := (ctx s)\<lparr>effects := effects (ctx s) @ [Send w message False]\<rparr>,
               sessions := AList.delete w (sessions s)\<rparr>
        else s\<lparr>ctx := (ctx s)\<lparr>effects := effects (ctx s) @ [Send w message True]\<rparr>\<rparr>)"

definition broadcastAtom :: "env \<Rightarrow> Atom \<Rightarrow> LiveBlog \<Rightarrow> LiveBlog" where
  "broadcastAtom e atom s = forEach_send e (message_of atom) (sessions s) s"

subsection \<open>handleCreateAtom\<close>

text \<open>The atom built from a validated \<open>content\<close> and the \<open>author\<close> of the body.\<close>

definition new_atom :: "env \<Rightarrow> json option \<Rightarrow> json option \<Rightarrow> Atom" where
  "new_atom e content author =
     \<lparr>atom_id = randomUUID e,
      atom_content = trim (string_of content),
      atom_timestamp = now e,
      atom_author = or_else author (JStr ''Anonymous'')\<rparr>"

text \<open>The body of the \<open>try\<close> block: the state reached, with the response or what was thrown.\<close>

definition handleCreateAtom_try :: "env \<Rightarrow> request \<Rightarrow> LiveBlog \<Rightarrow> (exn + response) \<times> LiveBlog" where
  "handleCreateAtom_try e req s =
     (case json_body req of
        None \<Rightarrow> (Inl SyntaxError, s)
      | Some b \<Rightarrow>
          (case get_property b ''content'' of
             Inl x \<Rightarrow> (Inl x, s)
           | Inr content \<Rightarrow>
               (case get_property b ''author'' of
                  Inl x \<Rightarrow> (Inl x, s)
                | Inr author \<Rightarrow>
                    if \<not> truthy content \<or> typeof content \<noteq> ''string''
                    then (Inr (json_response 400 (JObj [(''error'', JStr ''Content is required'')])), s)
                    else
                      let atom = new_atom e content author in
                      (case storeAtom e atom (ctx s) of
                         Inl x \<Rightarrow> (Inl x, s)
                       | Inr c \<Rightarrow>
                           let s' = broadcastAtom e atom (s\<lparr>ctx := c\<rparr>) in
                           (Inr (json_response 200
                                   (JObj [(''success'', JBool True), (''atom'', atom_json atom)])),
                            s')))))"

definition handleCreateAtom :: "env \<Rightarrow> request \<Rightarrow> LiveBlog \<Rightarrow> response \<times> LiveBlog" where
  "handleCreateAtom e req s =
     (case handleCreateAtom_try e req s of
        (Inl error, s') \<Rightarrow>
          (json_response 500 (JObj [(''error'', JStr ''Failed to create atom'')]), s')
      | (Inr r, s') \<Rightarrow> (r, s'))"

subsection \<open>handleGetMetadata\<close>

definition handleGetMetadata :: "env \<Rightarrow> LiveBlog \<Rightarrow> (exn + response) \<times> LiveBlog" where
  "handleGetMetadata e s =
     (if get_fails e ''metadata'' then (Inl StorageError, s)
      else
        (case storage_metadata (ctx s) of
           Some metadata \<Rightarrow> (Inr (json_response 200 (metadata_json metadata)), s)
         | None \<Rightarrow>
             let metadata =
                   \<lparr>meta_id = id_toString (ctx s),
                    meta_name = ''Live Blog '' @ take 8 (id_toString (ctx s)),
                    meta_createdAt = now e\<rparr>
             in if put_fails e ''metadata'' then (Inl StorageError, s)
                else (Inr (json_response 200 (metadata_json metadata)),
                      s\<lparr>ctx := (ctx s)\<lparr>storage_metadata := Some metadata,
                                       effects := effects (ctx s) @ [PutMetadata metadata]\<rparr>\<rparr>)))"

subsection \<open>fetch\<close>

definition fetch :: "env \<Rightarrow> request \<Rightarrow> LiveBlog \<Rightarrow> (exn + response) \<times> LiveBlog" where
  "fetch e req s =
     (let path = pathname req in
      if endsWith path ''/websocket''
      then (case handleWebSocketUpgrade e req s of (r, s') \<Rightarrow> (Inr r, s'))
      else if endsWith path ''/atoms'' \<and> req_method req = ''GET''
      then (handleGetAtoms e s, s)
      else if endsWith path ''/atoms'' \<and> req_method req = ''POST''
      then (case handleCreateAtom e req s of (r, s') \<Rightarrow> (Inr r, s'))
      else if endsWith path ''/metadata'' \<and> req_method req = ''GET''
      then handleGetMetadata e s
      else (Inr (text_response 404 ''Not Found''), s))"

subsection \<open>webSocketClose, webSocketError\<close>

text \<open>
  \<open>webSocketClose\<close> forgets the session and closes the connection, which the platform
  then no longer lists; \<open>webSocketError\<close> forgets the session.
\<close>

definition webSocketClose :: "ws \<Rightarrow> LiveBlog \<Rightarrow> LiveBlog" where
  "webSocketClose w s =
     \<lparr>ctx = (ctx s)\<lparr>webSockets := AList.delete w (webSockets (ctx s))\<rparr>,
      sessions = (if map_of (sessions s) w \<noteq> None then AList.delete w (sessions s) else sessions s)\<rparr>"

definition webSocketError :: "ws \<Rightarrow> LiveBlog \<Rightarrow> LiveBlog" where
  "webSocketError w s = s\<lparr>sessions := AList.delete w (sessions s)\<rparr>"

section \<open>Runs of the actor\<close>

text \<open>A sequence of \<open>POST /atoms\<close> calls, each with what it draws from outside.\<close>

fun appendEvents :: "(env \<times> request) list \<Rightarrow> LiveBlog \<Rightarrow> response list \<times> LiveBlog" where
  "appendEvents [] s = ([], s)"
| "appendEvents ((e, req) # calls) s =
     (case handleCreateAtom e req s of
        (r, s') \<Rightarrow> (case appendEvents calls s' of (rs, s'') \<Rightarrow> (r # rs, s'')))"

text \<open>
  Passivation and reactivation: the instance is destroyed, and a new one is constructed
  on the same \<open>ctx\<close>, in which the platform lists the connections that are still open.
\<close>

definition reactivate :: "(ws \<Rightarrow> bool) \<Rightarrow> LiveBlog \<Rightarrow> LiveBlog" where
  "reactivate still_open s =
     constructor ((ctx s)\<lparr>webSockets := filter (\<lambda>(w, a). still_open w) (webSockets (ctx s))\<rparr>)"

text \<open>
  The platform lists every connection once, the registry holds every connection once, and
  the session of every registry entry is the attachment the platform holds for that
  connection.
\<close>

definition attached :: "LiveBlog \<Rightarrow> bool" where
  "attached s \<longleftrightarrow>
     distinct (map fst (webSockets (ctx s))) \<and>
     distinct (map fst (sessions s)) \<and>
     list_all (\<lambda>(w, session). map_of (webSockets (ctx s)) w = Some (Some session)) (sessions s)"

text \<open>The response to an accepted post, and the response that lists the atoms.\<close>

abbreviation created :: "Atom \<Rightarrow> response" where
  "created atom \<equiv> json_response 200 (JObj [(''success'', JBool True), (''atom'', atom_json atom)])"

abbreviation listed :: "Atom list \<Rightarrow> response" where
  "listed atoms \<equiv> json_response 200 (JObj [(''atoms'', JArr (map atom_json atoms))])"

fun is_Send :: "effect \<Rightarrow> bool" where
  "is_Send (Send w m ok) = True"
| "is_Send x = False"

subsection \<open>Sample values\<close>

definition ctx0 :: DurableObjectState where
  "ctx0 = \<lparr>id_toString = ''0123456789abcdef'', storage_atoms = None, storage_metadata = None,
           webSockets = [], autoResponse = None, effects = []\<rparr>"

definition room0 :: LiveBlog where
  "room0 = constructor ctx0"

definition env0 :: env where
  "env0 = \<lparr>randomUUID = ''uuid-0'', now = 1000, pair_client = 1, pair_server = 2,
           get_fails = (\<lambda>k. False), put_fails = (\<lambda>k. False), send_fails = (\<lambda>w. False)\<rparr>"

definition env1 :: env where
  "env1 = \<lparr>randomUUID = ''uuid-1'', now = 2000, pair_client = 3, pair_server = 4,
           get_fails = (\<lambda>k. False), put_fails = (\<lambda>k. False), send_fails = (\<lambda>w. w = 2)\<rparr>"

definition env_down :: env where
  "env_down = \<lparr>randomUUID = ''uuid-2'', now = 3000, pair_client = 5, pair_server = 6,
           get_fails = (\<lambda>k. False), put_fails = (\<lambda>k. True), send_fails = (\<lambda>w. False)\<rparr>"

definition post :: "(string \<times> json) list \<Rightarrow> request" where
  "post props = \<lparr>req_method = ''POST'', pathname = ''/atoms'', upgrade = None,
                  json_body = Some (JObj props)\<rparr>"

definition upgrade_request :: "string \<Rightarrow> request" where
  "upgrade_request m = \<lparr>req_method = m, pathname = ''/websocket'', upgrade = Some ''websocket'',
                        json_body = None\<rparr>"

definition plain_request :: "string \<Rightarrow> string \<Rightarrow> request" where
  "plain_request m p = \<lparr>req_method = m, pathname = p, upgrade = None, json_body = None\<rparr>"


text \<open>A room with two readers connected, on the connections 2 and 4.\<close>

definition room2 :: LiveBlog where
  "room2 = snd (handleWebSocketUpgrade env1 (upgrade_request ''GET'')
             (snd (handleWebSocketUpgrade env0 (upgrade_request ''GET'') room0)))"

text \<open>The same room, with a third connection accepted that carries no attachment.\<close>

definition room3 :: LiveBlog where
  "room3 = room2\<lparr>ctx := acceptWebSocket 9 (ctx room2)\<rparr>"

text \<open>Two posts, the second without an author.\<close>

definition scenario :: "(env \<times> request) list" where
  "scenario =
     [(env0, post [(''content'', JStr ''Game starts''), (''author'', JStr ''Alex'')]),
      (env1, post [(''content'', JStr ''Halftime'')])]"

section \<open>Properties of the broadcast and of an accepted post\<close>

lemma forEach_send_ctx:
  "ctx (forEach_send e m xs s) =
     (ctx s)\<lparr>effects := effects (ctx s) @ map (\<lambda>(w, x). Send w m (\<not> send_fails e w)) xs\<rparr>"
  by (induction xs arbitrary: s) auto

lemma forEach_send_sessions:
  "sessions (forEach_send e m xs s) =
     filter (\<lambda>(w, x). \<not> (w \<in> fst ` set xs \<and> send_fails e w)) (sessions s)"
proof (induction xs arbitrary: s)
  case Nil
  then show ?case by simp
next
  case (Cons p xs)
  obtain w x where p: "p = (w, x)" by (cases p)
  show ?case
    unfolding p
    by (auto simp: Cons.IH AList.delete_eq intro!: filter_cong)
qed

lemma broadcastAtom_sessions:
  "sessions (broadcastAtom e atom s) = filter (\<lambda>(w, x). \<not> send_fails e w) (sessions s)"
  unfolding broadcastAtom_def forEach_send_sessions
  by (rule filter_cong) force+

lemma broadcastAtom_ctx:
  "ctx (broadcastAtom e atom s) =
     (ctx s)\<lparr>effects := effects (ctx s) @
        map (\<lambda>(w, x). Send w (message_of atom) (\<not> send_fails e w)) (sessions s)\<rparr>"
  by (simp add: broadcastAtom_def forEach_send_ctx)

lemma handleCreateAtom_accepted:
  assumes "json_body req = Some b"
    and "get_property b ''content'' = Inr content"
    and "get_property b ''author'' = Inr author"
    and "truthy content" and "typeof content = ''string''"
    and "\<not> get_fails e ''atoms''" and "\<not> put_fails e ''atoms''"
  shows "handleCreateAtom e req s =
     (created (new_atom e content author),
      broadcastAtom e (new_atom e content author)
        (s\<lparr>ctx := (ctx s)\<lparr>storage_atoms :=
              Some (or_empty (storage_atoms (ctx s)) @ [new_atom e content author]),
            effects := effects (ctx s) @
              [PutAtoms (or_empty (storage_atoms (ctx s)) @ [new_atom e content author])]\<rparr>\<rparr>))"
  using assms
  by (simp add: handleCreateAtom_def handleCreateAtom_try_def storeAtom_def getAllAtoms_def Let_def)

lemma handleCreateAtom_cases:
  assumes "handleCreateAtom e req s = (r, s')"
  shows "(s' = s \<and> (status r = 400 \<or> status r = 500)) \<or>
         (\<exists>b content author. json_body req = Some b \<and> get_property b ''content'' = Inr content \<and>
            get_property b ''author'' = Inr author \<and> truthy content \<and> typeof content = ''string'' \<and>
            \<not> get_fails e ''atoms'' \<and> \<not> put_fails e ''atoms'')"
  using assms
  by (auto simp: handleCreateAtom_def handleCreateAtom_try_def storeAtom_def getAllAtoms_def Let_def
      json_response_def split: option.splits sum.splits if_splits)

lemma handleCreateAtom_200:
  assumes "handleCreateAtom e req s = (r, s')" and "status r = 200"
  shows "\<exists>atom. atom_id atom = randomUUID e \<and> atom_timestamp atom = now e \<and>
           r = created atom \<and>
           sessions s' = filter (\<lambda>(w, x). \<not> send_fails e w) (sessions s) \<and>
           ctx s' = (ctx s)\<lparr>storage_atoms := Some (or_empty (storage_atoms (ctx s)) @ [atom]),
                       effects := effects (ctx s) @ PutAtoms (or_empty (storage_atoms (ctx s)) @ [atom]) #
                         map (\<lambda>(w, x). Send w (message_of atom) (\<not> send_fails e w)) (sessions s)\<rparr>"
proof -
  from handleCreateAtom_cases [OF assms(1)] assms(2)
  obtain b content author where v: "json_body req = Some b" "get_property b ''content'' = Inr content"
      "get_property b ''author'' = Inr author" "truthy content" "typeof content = ''string''"
      "\<not> get_fails e ''atoms''" "\<not> put_fails e ''atoms''"
    by auto
  let ?a = "new_atom e content author"
  from handleCreateAtom_accepted [OF v, of s] assms(1)
  have r: "r = created ?a" and s': "s' = broadcastAtom e ?a
        (s\<lparr>ctx := (ctx s)\<lparr>storage_atoms := Some (or_empty (storage_atoms (ctx s)) @ [?a]),
            effects := effects (ctx s) @ [PutAtoms (or_empty (storage_atoms (ctx s)) @ [?a])]\<rparr>\<rparr>)"
    by simp_all
  have "atom_id ?a = randomUUID e" "atom_timestamp ?a = now e"
    by (simp_all add: new_atom_def)
  moreover have "sessions s' = filter (\<lambda>(w, x). \<not> send_fails e w) (sessions s)"
    by (simp add: s' broadcastAtom_sessions)
  moreover have "ctx s' = (ctx s)\<lparr>storage_atoms := Some (or_empty (storage_atoms (ctx s)) @ [?a]),
                       effects := effects (ctx s) @ PutAtoms (or_empty (storage_atoms (ctx s)) @ [?a]) #
                         map (\<lambda>(w, x). Send w (message_of ?a) (\<not> send_fails e w)) (sessions s)\<rparr>"
    by (simp add: s' broadcastAtom_ctx)
  ultimately show ?thesis using r by blast
qed

lemma appendEvents_log:
  assumes "appendEvents calls s = (rs, s')" and "\<forall>r\<in>set rs. status r = 200"
  shows "\<exists>atoms. rs = map created atoms \<and>
           or_empty (storage_atoms (ctx s')) = or_empty (storage_atoms (ctx s)) @ atoms \<and>
           map atom_id atoms = map (\<lambda>(e, req). randomUUID e) calls \<and>
           map atom_timestamp atoms = map (\<lambda>(e, req). now e) calls"
  using assms
proof (induction calls arbitrary: s rs s')
  case Nil
  then show ?case by simp
next
  case (Cons c calls)
  obtain e req where c: "c = (e, req)" by (cases c)
  obtain r s1 where h: "handleCreateAtom e req s = (r, s1)" by (cases "handleCreateAtom e req s")
  obtain rs1 s2 where t: "appendEvents calls s1 = (rs1, s2)" by (cases "appendEvents calls s1")
  from Cons.prems(1) have rs: "rs = r # rs1" and s': "s' = s2"
    by (simp_all add: c h t)
  from Cons.prems(2) rs have ok: "status r = 200" and oks: "\<forall>r\<in>set rs1. status r = 200"
    by simp_all
  from handleCreateAtom_200 [OF h ok] obtain atom where a: "atom_id atom = randomUUID e"
      "atom_timestamp atom = now e" "r = created atom"
      "ctx s1 = (ctx s)\<lparr>storage_atoms := Some (or_empty (storage_atoms (ctx s)) @ [atom]),
                       effects := effects (ctx s) @ PutAtoms (or_empty (storage_atoms (ctx s)) @ [atom]) #
                         map (\<lambda>(w, x). Send w (message_of atom) (\<not> send_fails e w)) (sessions s)\<rparr>"
    by blast
  from Cons.IH [OF t oks] obtain atoms where as: "rs1 = map created atoms"
      "or_empty (storage_atoms (ctx s2)) = or_empty (storage_atoms (ctx s1)) @ atoms"
      "map atom_id atoms = map (\<lambda>(e, req). randomUUID e) calls"
      "map atom_timestamp atoms = map (\<lambda>(e, req). now e) calls"
    by blast
  have "or_empty (storage_atoms (ctx s1)) = or_empty (storage_atoms (ctx s)) @ [atom]"
    by (simp add: a(4) or_empty_def)
  with a as rs s' c show ?case
    by (intro exI [of _ "atom # atoms"]) simp
qed

lemmas run_defs = scenario_def room0_def room2_def room3_def constructor_def ctx0_def env0_def env1_def env_down_def
  post_def upgrade_request_def plain_request_def
  handleCreateAtom_def handleCreateAtom_try_def storeAtom_def getAllAtoms_def or_empty_def
  broadcastAtom_def new_atom_def trim_def is_whitespace_def or_else_def json_response_def
  text_response_def handleGetAtoms_def message_of_def handleWebSocketUpgrade_def
  acceptWebSocket_def serializeAttachment_def restore_def Let_def

section \<open>The event log\<close>

text \<open>
  C1. On a room whose storage holds no atoms, after any sequence of posts that were all
  answered with status 200, \<open>GET /atoms\<close> (its storage read going through) returns
  exactly the atoms returned by those posts, in call order, each with the identifier and
  the time stamp drawn by its call; before any post it returns the empty list.
\<close>

theorem C1_append_then_read:
  assumes "storage_atoms (ctx s) = None"
    and "appendEvents calls s = (rs, s')"
    and "\<forall>r\<in>set rs. status r = 200"
    and "\<not> get_fails e ''atoms''"
  shows "handleGetAtoms e s = Inr (listed []) \<and>
         (\<exists>atoms. rs = map created atoms \<and>
            map atom_id atoms = map (\<lambda>(e, req). randomUUID e) calls \<and>
            map atom_timestamp atoms = map (\<lambda>(e, req). now e) calls \<and>
            handleGetAtoms e s' = Inr (listed atoms))"
proof -
  from appendEvents_log [OF assms(2,3)] obtain atoms where as: "rs = map created atoms"
      "or_empty (storage_atoms (ctx s')) = or_empty (storage_atoms (ctx s)) @ atoms"
      "map atom_id atoms = map (\<lambda>(e, req). randomUUID e) calls"
      "map atom_timestamp atoms = map (\<lambda>(e, req). now e) calls"
    by blast
  have "handleGetAtoms e s = Inr (listed [])"
    using assms(1,4) by (simp add: handleGetAtoms_def getAllAtoms_def or_empty_def)
  moreover have "handleGetAtoms e s' = Inr (listed atoms)"
    using assms(1,4) as(2) by (simp add: handleGetAtoms_def getAllAtoms_def or_empty_def)
  ultimately show ?thesis using as by blast
qed

theorem C1_witness:
  "map status (fst (appendEvents scenario room0)) = [200, 200] \<and>
   handleGetAtoms env0 room0 = Inr (listed []) \<and>
   (\<exists>atoms. fst (appendEvents scenario room0) = map created atoms \<and>
      map atom_id atoms = [''uuid-0'', ''uuid-1''] \<and>
      map atom_timestamp atoms = [1000, 2000] \<and>
      handleGetAtoms env0 (snd (appendEvents scenario room0)) = Inr (listed atoms)) \<and>
   handleGetAtoms env0 (snd (appendEvents scenario room0)) =
     Inr (listed [\<lparr>atom_id = ''uuid-0'', atom_content = ''Game starts'', atom_timestamp = 1000,
                    atom_author = JStr ''Alex''\<rparr>,
                  \<lparr>atom_id = ''uuid-1'', atom_content = ''Halftime'', atom_timestamp = 2000,
                    atom_author = JStr ''Anonymous''\<rparr>])"
proof -
  have h1: "storage_atoms (ctx room0) = None"
    by (simp add: run_defs)
  have h2: "appendEvents scenario room0 = (fst (appendEvents scenario room0), snd (appendEvents scenario room0))"
    by simp
  have st: "map status (fst (appendEvents scenario room0)) = [200, 200]"
    by (simp add: run_defs)
  have h3: "\<forall>r\<in>set (fst (appendEvents scenario room0)). status r = 200"
    by (simp add: run_defs)
  have h4: "\<not> get_fails env0 ''atoms''"
    by (simp add: env0_def)
  have c: "handleGetAtoms env0 (snd (appendEvents scenario room0)) =
     Inr (listed [\<lparr>atom_id = ''uuid-0'', atom_content = ''Game starts'', atom_timestamp = 1000,
                    atom_author = JStr ''Alex''\<rparr>,
                  \<lparr>atom_id = ''uuid-1'', atom_content = ''Halftime'', atom_timestamp = 2000,
                    atom_author = JStr ''Anonymous''\<rparr>])"
    by (simp add: run_defs)
  have m: "map (\<lambda>(e, req). randomUUID e) scenario = [''uuid-0'', ''uuid-1'']"
      "map (\<lambda>(e, req). now e) scenario = [1000, 2000]"
    by (simp_all add: scenario_def env0_def env1_def)
  from C1_append_then_read [OF h1 h2 h3 h4] st c show ?thesis
    unfolding m by blast
qed

section \<open>Posting an atom\<close>













text \<open>
  C5. A post answered with status 200 adds, after the write of the log, exactly one send
  attempt for each entry of the session registry, in registry order, all carrying the
  same serialised message \<open>{type: "new_atom", atom}\<close> for the atom returned to the caller.
\<close>

theorem C5_fan_out:
  assumes "handleCreateAtom e req s = (r, s')" and "status r = 200"
  shows "\<exists>atom atoms. r = created atom \<and>
           message_of atom = JSON_stringify (JObj [(''type'', JStr ''new_atom''), (''atom'', atom_json atom)]) \<and>
           effects (ctx s') = effects (ctx s) @ PutAtoms atoms #
             map (\<lambda>(w, session). Send w (message_of atom) (\<not> send_fails e w)) (sessions s) \<and>
           length (filter is_Send (drop (length (effects (ctx s))) (effects (ctx s')))) =
             length (sessions s)"
proof -
  from handleCreateAtom_200 [OF assms] obtain atom where a: "r = created atom"
      "ctx s' = (ctx s)\<lparr>storage_atoms := Some (or_empty (storage_atoms (ctx s)) @ [atom]),
                       effects := effects (ctx s) @ PutAtoms (or_empty (storage_atoms (ctx s)) @ [atom]) #
                         map (\<lambda>(w, x). Send w (message_of atom) (\<not> send_fails e w)) (sessions s)\<rparr>"
    by blast
  have "filter is_Send (map (\<lambda>(w, x). Send w (message_of atom) (\<not> send_fails e w)) (sessions s)) =
        map (\<lambda>(w, x). Send w (message_of atom) (\<not> send_fails e w)) (sessions s)"
    by (simp add: filter_id_conv split_beta)
  then have "length (filter is_Send (drop (length (effects (ctx s))) (effects (ctx s')))) =
             length (sessions s)"
    by (simp add: a(2))
  with a show ?thesis
    by (intro exI [of _ atom] exI [of _ "or_empty (storage_atoms (ctx s)) @ [atom]"])
      (simp add: message_of_def)
qed


lemma sessions_room2:
  "sessions room2 = [(2, \<lparr>session_id = ''uuid-0''\<rparr>), (4, \<lparr>session_id = ''uuid-1''\<rparr>)]"
  by (simp add: run_defs)

lemma effects_room2: "effects (ctx room2) = []"
  by (simp add: run_defs)

theorem C5_witness:
  "length (sessions room2) = 2 \<and>
   status (fst (handleCreateAtom env1 (post [(''content'', JStr ''hi'')]) room2)) = 200 \<and>
   (\<exists>atom atoms. fst (handleCreateAtom env1 (post [(''content'', JStr ''hi'')]) room2) = created atom \<and>
      effects (ctx (snd (handleCreateAtom env1 (post [(''content'', JStr ''hi'')]) room2))) =
        [PutAtoms atoms, Send 2 (message_of atom) False, Send 4 (message_of atom) True])"
proof -
  let ?req = "post [(''content'', JStr ''hi'')]"
  have pair: "handleCreateAtom env1 ?req room2 =
      (fst (handleCreateAtom env1 ?req room2), snd (handleCreateAtom env1 ?req room2))"
    by simp
  have ok: "status (fst (handleCreateAtom env1 ?req room2)) = 200"
    by (simp add: run_defs)
  have f: "send_fails env1 2" "\<not> send_fails env1 4"
    by (simp_all add: env1_def)
  from C5_fan_out [OF pair ok] ok f show ?thesis
    unfolding sessions_room2 effects_room2 by auto
qed



section \<open>Trimming the content\<close>






section \<open>Routing\<close>

text \<open>
  C4, as stated, fails: a \<open>POST\<close> with the header \<open>Upgrade: websocket\<close> is answered with
  status 400, not 426.
\<close>

theorem C4_counterexample:
  "upgrade (upgrade_request ''POST'') = Some ''websocket'' \<and>
   req_method (upgrade_request ''POST'') \<noteq> ''GET'' \<and>
   fst (handleWebSocketUpgrade env0 (upgrade_request ''POST'') room0) =
     text_response 400 ''Expected GET method'' \<and>
   status (fst (handleWebSocketUpgrade env0 (upgrade_request ''POST'') room0)) \<noteq> 426"
  by (simp add: upgrade_request_def handleWebSocketUpgrade_def text_response_def)

text \<open>
  C4, amended. \<open>handleWebSocketUpgrade\<close> answers 426 whenever the \<open>Upgrade\<close> header is
  missing or differs from \<open>websocket\<close>, whatever the method; it answers 400 when the
  header is \<open>websocket\<close> and the method is not \<open>GET\<close>; in both cases the actor is
  unchanged. Otherwise it answers 101 with the client end of the new pair, and the server
  end is registered with a session whose identifier is also its attachment.
\<close>

theorem C4_upgrade_status:
  assumes "handleWebSocketUpgrade e req s = (r, s')"
  shows "(upgrade req \<noteq> Some ''websocket'' \<longrightarrow>
            r = text_response 426 ''Expected Upgrade: websocket'' \<and> s' = s) \<and>
         (upgrade req = Some ''websocket'' \<and> req_method req \<noteq> ''GET'' \<longrightarrow>
            r = text_response 400 ''Expected GET method'' \<and> s' = s) \<and>
         (upgrade req = Some ''websocket'' \<and> req_method req = ''GET'' \<longrightarrow>
            r = \<lparr>status = 101, body = None, content_type = None, webSocket = Some (pair_client e)\<rparr> \<and>
            map_of (sessions s') (pair_server e) = Some \<lparr>session_id = randomUUID e\<rparr> \<and>
            map_of (webSockets (ctx s')) (pair_server e) = Some (Some \<lparr>session_id = randomUUID e\<rparr>))"
  using assms
  by (auto simp: handleWebSocketUpgrade_def Let_def acceptWebSocket_def serializeAttachment_def
      AList.update_conv' split: if_splits)

theorem C4_witness:
  "handleWebSocketUpgrade env0 (plain_request ''GET'' ''/websocket'') room0 =
     (text_response 426 ''Expected Upgrade: websocket'', room0) \<and>
   handleWebSocketUpgrade env0 (upgrade_request ''POST'') room0 =
     (text_response 400 ''Expected GET method'', room0) \<and>
   fst (handleWebSocketUpgrade env0 (upgrade_request ''GET'') room0) =
     \<lparr>status = 101, body = None, content_type = None, webSocket = Some 1\<rparr> \<and>
   map_of (sessions (snd (handleWebSocketUpgrade env0 (upgrade_request ''GET'') room0))) 2 =
     Some \<lparr>session_id = ''uuid-0''\<rparr>"
proof -
  have pair: "\<And>req. handleWebSocketUpgrade env0 req room0 =
      (fst (handleWebSocketUpgrade env0 req room0), snd (handleWebSocketUpgrade env0 req room0))"
    by simp
  have 1: "upgrade (plain_request ''GET'' ''/websocket'') \<noteq> Some ''websocket''"
    by (simp add: plain_request_def)
  have 2: "upgrade (upgrade_request ''POST'') = Some ''websocket''"
      "req_method (upgrade_request ''POST'') \<noteq> ''GET''"
    by (simp_all add: upgrade_request_def)
  have 3: "upgrade (upgrade_request ''GET'') = Some ''websocket''"
      "req_method (upgrade_request ''GET'') = ''GET''"
    by (simp_all add: upgrade_request_def)
  have e: "pair_client env0 = 1" "pair_server env0 = 2" "randomUUID env0 = ''uuid-0''"
    by (simp_all add: env0_def)
  from C4_upgrade_status [OF pair, of "plain_request ''GET'' ''/websocket''"]
    C4_upgrade_status [OF pair, of "upgrade_request ''POST''"]
    C4_upgrade_status [OF pair, of "upgrade_request ''GET''"] 1 2 3
  show ?thesis
    unfolding e by (simp add: prod_eq_iff)
qed

text \<open>
  C9, as stated, fails: a \<open>POST\<close> on \<open>/websocket\<close> is not answered 404 but 426 (or 400
  with the \<open>Upgrade\<close> header), since \<open>fetch\<close> routes a path ending in \<open>/websocket\<close> to
  the upgrade handler whatever the method.
\<close>

theorem C9_counterexample:
  "pathname (plain_request ''POST'' ''/websocket'') = ''/websocket'' \<and>
   req_method (plain_request ''POST'' ''/websocket'') = ''POST'' \<and>
   fetch env0 (plain_request ''POST'' ''/websocket'') room0 =
     (Inr (text_response 426 ''Expected Upgrade: websocket''), room0) \<and>
   fetch env0 (upgrade_request ''POST'') room0 =
     (Inr (text_response 400 ''Expected GET method''), room0)"
  by (simp add: plain_request_def upgrade_request_def fetch_def endsWith_def
      handleWebSocketUpgrade_def)

lemma handleGetMetadata_status:
  "handleGetMetadata e s = (Inr r, s') \<Longrightarrow> status r = 200"
  by (auto simp: handleGetMetadata_def json_response_def Let_def split: if_splits option.splits)

lemma handleCreateAtom_status:
  "handleCreateAtom e req s = (r, s') \<Longrightarrow> status r = 200 \<or> status r = 400 \<or> status r = 500"
  using handleCreateAtom_cases [of e req s r s'] handleCreateAtom_accepted [of req _ _ _ e s]
  by (auto simp: json_response_def)

lemma handleWebSocketUpgrade_status:
  "handleWebSocketUpgrade e req s = (r, s') \<Longrightarrow> status r = 426 \<or> status r = 400 \<or> status r = 101"
  by (auto simp: handleWebSocketUpgrade_def text_response_def Let_def split: if_splits)

lemma handleGetAtoms_status:
  "handleGetAtoms e s = Inr r \<Longrightarrow> status r = 200"
  by (auto simp: handleGetAtoms_def json_response_def split: sum.splits)

text \<open>
  C9, amended. \<open>fetch\<close> answers 404 exactly when the path does not end in \<open>/websocket\<close>,
  the request is not a \<open>GET\<close> or \<open>POST\<close> on a path ending in \<open>/atoms\<close>, and it is not a
  \<open>GET\<close> on a path ending in \<open>/metadata\<close>; the response is then \<open>Not Found\<close> and the
  actor is unchanged. A path ending in \<open>/websocket\<close> goes to the upgrade handler with
  any method and is never answered 404.
\<close>

theorem C9_not_found:
  "((\<exists>r. fst (fetch e req s) = Inr r \<and> status r = 404) \<longleftrightarrow>
      \<not> endsWith (pathname req) ''/websocket'' \<and>
      \<not> (endsWith (pathname req) ''/atoms'' \<and> (req_method req = ''GET'' \<or> req_method req = ''POST'')) \<and>
      \<not> (endsWith (pathname req) ''/metadata'' \<and> req_method req = ''GET'')) \<and>
   ((\<exists>r. fst (fetch e req s) = Inr r \<and> status r = 404) \<longrightarrow>
      fetch e req s = (Inr (text_response 404 ''Not Found''), s)) \<and>
   (endsWith (pathname req) ''/websocket'' \<longrightarrow>
      fetch e req s = (Inr (fst (handleWebSocketUpgrade e req s)), snd (handleWebSocketUpgrade e req s)) \<and>
      status (fst (handleWebSocketUpgrade e req s)) \<noteq> 404)"
proof -
  let ?W = "endsWith (pathname req) ''/websocket''"
  let ?G = "endsWith (pathname req) ''/atoms'' \<and> req_method req = ''GET''"
  let ?P = "endsWith (pathname req) ''/atoms'' \<and> req_method req = ''POST''"
  let ?M = "endsWith (pathname req) ''/metadata'' \<and> req_method req = ''GET''"
  let ?N = "\<exists>r. fst (fetch e req s) = Inr r \<and> status r = 404"
  obtain ru su where u: "handleWebSocketUpgrade e req s = (ru, su)"
    by (cases "handleWebSocketUpgrade e req s")
  have su: "status ru \<noteq> 404"
    using handleWebSocketUpgrade_status [OF u] by auto
  consider (W) ?W | (G) "\<not> ?W" ?G | (P) "\<not> ?W" "\<not> ?G" ?P
    | (M) "\<not> ?W" "\<not> ?G" "\<not> ?P" ?M | (N) "\<not> ?W" "\<not> ?G" "\<not> ?P" "\<not> ?M"
    by blast
  then show ?thesis
  proof cases
    case W
    then have f: "fetch e req s = (Inr ru, su)"
      by (simp add: fetch_def u)
    with W su show ?thesis
      by (simp add: u)
  next
    case G
    then have f: "fetch e req s = (handleGetAtoms e s, s)"
      by (simp add: fetch_def)
    have "\<not> ?N"
      using handleGetAtoms_status [of e s] by (auto simp: f)
    with G show ?thesis
      by blast
  next
    case P
    obtain rc sc where c: "handleCreateAtom e req s = (rc, sc)"
      by (cases "handleCreateAtom e req s")
    from P have f: "fetch e req s = (Inr rc, sc)"
      by (simp add: fetch_def c)
    have "\<not> ?N"
      using handleCreateAtom_status [OF c] by (auto simp: f)
    with P show ?thesis
      by blast
  next
    case M
    then have f: "fetch e req s = handleGetMetadata e s"
      by (simp add: fetch_def)
    have "\<not> ?N"
      using handleGetMetadata_status [of e s _ "snd (handleGetMetadata e s)"]
      by (auto simp: f prod_eq_iff)
    with M show ?thesis
      by blast
  next
    case N
    then have f: "fetch e req s = (Inr (text_response 404 ''Not Found''), s)"
      by (auto simp: fetch_def Let_def)
    then have ?N
      by (simp add: text_response_def)
    with N f show ?thesis
      by auto
  qed
qed

theorem C9_witness:
  "fetch env0 (plain_request ''DELETE'' ''/atoms'') room2 = (Inr (text_response 404 ''Not Found''), room2) \<and>
   fetch env0 (plain_request ''GET'' ''/elsewhere'') room2 = (Inr (text_response 404 ''Not Found''), room2) \<and>
   fetch env0 (plain_request ''POST'' ''/metadata'') room2 = (Inr (text_response 404 ''Not Found''), room2) \<and>
   status (fst (handleWebSocketUpgrade env0 (plain_request ''PUT'' ''/websocket'') room2)) \<noteq> 404"
proof -
  have 1: "\<not> endsWith (pathname (plain_request ''DELETE'' ''/atoms'')) ''/websocket'' \<and>
      \<not> (endsWith (pathname (plain_request ''DELETE'' ''/atoms'')) ''/atoms'' \<and>
         (req_method (plain_request ''DELETE'' ''/atoms'') = ''GET'' \<or>
          req_method (plain_request ''DELETE'' ''/atoms'') = ''POST'')) \<and>
      \<not> (endsWith (pathname (plain_request ''DELETE'' ''/atoms'')) ''/metadata'' \<and>
         req_method (plain_request ''DELETE'' ''/atoms'') = ''GET'')"
    by (simp add: plain_request_def endsWith_def)
  have 2: "\<not> endsWith (pathname (plain_request ''GET'' ''/elsewhere'')) ''/websocket'' \<and>
      \<not> (endsWith (pathname (plain_request ''GET'' ''/elsewhere'')) ''/atoms'' \<and>
         (req_method (plain_request ''GET'' ''/elsewhere'') = ''GET'' \<or>
          req_method (plain_request ''GET'' ''/elsewhere'') = ''POST'')) \<and>
      \<not> (endsWith (pathname (plain_request ''GET'' ''/elsewhere'')) ''/metadata'' \<and>
         req_method (plain_request ''GET'' ''/elsewhere'') = ''GET'')"
    by (simp add: plain_request_def endsWith_def)
  have 3: "\<not> endsWith (pathname (plain_request ''POST'' ''/metadata'')) ''/websocket'' \<and>
      \<not> (endsWith (pathname (plain_request ''POST'' ''/metadata'')) ''/atoms'' \<and>
         (req_method (plain_request ''POST'' ''/metadata'') = ''GET'' \<or>
          req_method (plain_request ''POST'' ''/metadata'') = ''POST'')) \<and>
      \<not> (endsWith (pathname (plain_request ''POST'' ''/metadata'')) ''/metadata'' \<and>
         req_method (plain_request ''POST'' ''/metadata'') = ''GET'')"
    by (simp add: plain_request_def endsWith_def)
  have 4: "endsWith (pathname (plain_request ''PUT'' ''/websocket'')) ''/websocket''"
    by (simp add: plain_request_def endsWith_def)
  from C9_not_found [of env0 "plain_request ''DELETE'' ''/atoms''" room2] 1
  have a: "fetch env0 (plain_request ''DELETE'' ''/atoms'') room2 = (Inr (text_response 404 ''Not Found''), room2)"
    by blast
  from C9_not_found [of env0 "plain_request ''GET'' ''/elsewhere''" room2] 2
  have b: "fetch env0 (plain_request ''GET'' ''/elsewhere'') room2 = (Inr (text_response 404 ''Not Found''), room2)"
    by blast
  from C9_not_found [of env0 "plain_request ''POST'' ''/metadata''" room2] 3
  have c: "fetch env0 (plain_request ''POST'' ''/metadata'') room2 = (Inr (text_response 404 ''Not Found''), room2)"
    by blast
  from C9_not_found [of env0 "plain_request ''PUT'' ''/websocket''" room2] 4
  have d: "status (fst (handleWebSocketUpgrade env0 (plain_request ''PUT'' ''/websocket'') room2)) \<noteq> 404"
    by blast
  from a b c d show ?thesis
    by simp
qed

section \<open>Metadata\<close>

text \<open>
  C8. After a call of \<open>handleGetMetadata\<close> that returned a response, the storage holds the
  metadata of that response, and a further call whose storage read goes through returns
  the same response and leaves the actor, so also the stored value, as it is, whatever
  the time of the further call. When nothing was stored before the first call, the
  value stored is synthesised from the identifier of the actor and the time of that call.
\<close>

theorem C8_metadata_idempotent:
  assumes "handleGetMetadata e1 s = (Inr r1, s1)" and "\<not> get_fails e2 ''metadata''"
  shows "handleGetMetadata e2 s1 = (Inr r1, s1) \<and>
         (\<exists>metadata. storage_metadata (ctx s1) = Some metadata \<and>
            r1 = json_response 200 (metadata_json metadata) \<and>
            (storage_metadata (ctx s) = None \<longrightarrow>
               metadata = \<lparr>meta_id = id_toString (ctx s),
                            meta_name = ''Live Blog '' @ take 8 (id_toString (ctx s)),
                            meta_createdAt = now e1\<rparr>) \<and>
            (storage_metadata (ctx s) \<noteq> None \<longrightarrow> s1 = s))"
  using assms
  by (auto simp: handleGetMetadata_def Let_def split: if_splits option.splits)

theorem C8_witness:
  "handleGetMetadata env0 room0 =
     (Inr (json_response 200 (JObj [(''id'', JStr ''0123456789abcdef''),
        (''name'', JStr ''Live Blog 01234567''), (''createdAt'', JNum 1000)])),
      snd (handleGetMetadata env0 room0)) \<and>
   now env1 \<noteq> now env0 \<and>
   handleGetMetadata env1 (snd (handleGetMetadata env0 room0)) =
     (Inr (json_response 200 (JObj [(''id'', JStr ''0123456789abcdef''),
        (''name'', JStr ''Live Blog 01234567''), (''createdAt'', JNum 1000)])),
      snd (handleGetMetadata env0 room0))"
proof -
  have 1: "handleGetMetadata env0 room0 =
     (Inr (json_response 200 (JObj [(''id'', JStr ''0123456789abcdef''),
        (''name'', JStr ''Live Blog 01234567''), (''createdAt'', JNum 1000)])),
      snd (handleGetMetadata env0 room0))"
    by (simp add: handleGetMetadata_def run_defs metadata_json_def)
  have 2: "\<not> get_fails env1 ''metadata''" "now env1 \<noteq> now env0"
    by (simp_all add: env1_def env0_def)
  from C8_metadata_idempotent [OF 1 2(1)] 1 2 show ?thesis
    by simp
qed

section \<open>Passivation and reactivation\<close>

lemma distinct_restore:
  "distinct (map fst m) \<Longrightarrow> distinct (map fst (restore m p))"
  by (simp add: restore_def AList.distinct_update split: option.splits)

lemma map_of_restore:
  "map_of (restore m (k, v)) w =
     (if w = k then (case v of None \<Rightarrow> map_of m w | Some a \<Rightarrow> Some a) else map_of m w)"
  by (simp add: restore_def AList.update_conv' split: option.splits)

lemma distinct_foldl_restore:
  "distinct (map fst m) \<Longrightarrow> distinct (map fst (foldl restore m xs))"
  by (induction xs arbitrary: m) (simp_all add: distinct_restore)

lemma map_of_foldl_restore:
  "distinct (map fst xs) \<Longrightarrow>
   map_of (foldl restore m xs) w =
     (case map_of xs w of Some (Some a) \<Rightarrow> Some a | Some None \<Rightarrow> map_of m w | None \<Rightarrow> map_of m w)"
proof (induction xs arbitrary: m)
  case Nil
  then show ?case by simp
next
  case (Cons p xs)
  obtain k v where p: "p = (k, v)" by (cases p)
  from Cons.prems have d: "distinct (map fst xs)" and k: "map_of xs k = None"
    by (auto simp: p map_of_eq_None_iff)
  have "map_of (foldl restore m (p # xs)) w =
      (case map_of xs w of Some (Some a) \<Rightarrow> Some a | Some None \<Rightarrow> map_of (restore m (k, v)) w
       | None \<Rightarrow> map_of (restore m (k, v)) w)"
    by (simp add: p Cons.IH [OF d])
  also have "\<dots> = (case map_of (p # xs) w of Some (Some a) \<Rightarrow> Some a | Some None \<Rightarrow> map_of m w
       | None \<Rightarrow> map_of m w)"
    using k by (auto simp: p map_of_restore split: option.splits)
  finally show ?case .
qed

lemma map_of_filter_keys:
  "map_of (filter (\<lambda>(w, a). P w) xs) w = (if P w then map_of xs w else None)"
  by (induction xs) auto

lemma sessions_reactivate:
  assumes "distinct (map fst (webSockets (ctx s)))"
  shows "map_of (sessions (reactivate still_open s)) w =
     (if still_open w
      then (case map_of (webSockets (ctx s)) w of Some (Some a) \<Rightarrow> Some a | Some None \<Rightarrow> None | None \<Rightarrow> None)
      else None)"
proof -
  have "distinct (map fst (filter (\<lambda>(w, a). still_open w) (webSockets (ctx s))))"
    using assms by (rule distinct_map_filter)
  then show ?thesis
    by (simp add: reactivate_def constructor_def map_of_foldl_restore map_of_filter_keys
        split: option.splits)
qed

lemma distinct_sessions_reactivate:
  "distinct (map fst (sessions (reactivate still_open s)))"
  by (simp add: reactivate_def constructor_def distinct_foldl_restore)

lemma set_sessions_reactivate:
  assumes "distinct (map fst (webSockets (ctx s)))"
  shows "set (sessions (reactivate still_open s)) =
           {(w, a). still_open w \<and> (w, Some a) \<in> set (webSockets (ctx s))}"
proof -
  have "(w, a) \<in> set (sessions (reactivate still_open s)) \<longleftrightarrow>
        still_open w \<and> (w, Some a) \<in> set (webSockets (ctx s))" for w a
  proof -
    have "(w, a) \<in> set (sessions (reactivate still_open s)) \<longleftrightarrow>
          map_of (sessions (reactivate still_open s)) w = Some a"
      by (simp add: map_of_eq_Some_iff [OF distinct_sessions_reactivate])
    also have "\<dots> \<longleftrightarrow> still_open w \<and> map_of (webSockets (ctx s)) w = Some (Some a)"
      by (auto simp: sessions_reactivate [OF assms] split: option.splits)
    also have "\<dots> \<longleftrightarrow> still_open w \<and> (w, Some a) \<in> set (webSockets (ctx s))"
      by (simp add: map_of_eq_Some_iff [OF assms])
    finally show ?thesis .
  qed
  then show ?thesis
    by auto
qed

text \<open>Every handler keeps the registry attached.\<close>

lemma attached_iff:
  "attached s \<longleftrightarrow>
     distinct (map fst (webSockets (ctx s))) \<and> distinct (map fst (sessions s)) \<and>
     (\<forall>w a. map_of (sessions s) w = Some a \<longrightarrow> map_of (webSockets (ctx s)) w = Some (Some a))"
proof (cases "distinct (map fst (sessions s))")
  case True
  then show ?thesis
    by (auto simp: attached_def list_all_iff)
next
  case False
  then show ?thesis
    by (simp add: attached_def)
qed

lemma attached_constructor:
  assumes "distinct (map fst (webSockets c))"
  shows "attached (constructor c)"
proof -
  have "map_of (webSockets c) w = Some (Some a)"
    if "map_of (foldl restore [] (webSockets c)) w = Some a" for w a
    using that unfolding map_of_foldl_restore [OF assms]
    by (simp split: option.splits)
  then show ?thesis
    unfolding attached_iff using assms
    by (simp add: constructor_def distinct_foldl_restore del: map_of_eq_Some_iff)
qed

lemma attached_handleWebSocketUpgrade:
  assumes "attached s" and "handleWebSocketUpgrade e req s = (r, s')"
  shows "attached s'"
proof (cases "s' = s")
  case True
  with assms(1) show ?thesis by simp
next
  case False
  let ?k = "pair_server e"
  let ?v = "\<lparr>session_id = randomUUID e\<rparr>"
  from False assms(2) have s': "s' = \<lparr>ctx = serializeAttachment ?k ?v (acceptWebSocket ?k (ctx s)),
      sessions = AList.update ?k ?v (sessions s)\<rparr>"
    by (auto simp: handleWebSocketUpgrade_def Let_def split: if_splits)
  have ws: "webSockets (ctx s') = AList.update ?k (Some ?v) (webSockets (ctx s))"
    by (simp add: s' serializeAttachment_def acceptWebSocket_def)
  have se: "sessions s' = AList.update ?k ?v (sessions s)"
    by (simp add: s')
  from assms(1) show ?thesis
    unfolding attached_iff ws se
    by (simp add: AList.update_conv' AList.distinct_update del: map_of_eq_Some_iff)
qed

lemma attached_broadcastAtom:
  assumes "attached s"
  shows "attached (broadcastAtom e atom s)"
proof -
  have ws: "webSockets (ctx (broadcastAtom e atom s)) = webSockets (ctx s)"
    by (simp add: broadcastAtom_ctx)
  have m: "map_of (sessions (broadcastAtom e atom s)) w =
      (if \<not> send_fails e w then map_of (sessions s) w else None)" for w
    unfolding broadcastAtom_sessions by (rule map_of_filter_keys)
  have d: "distinct (map fst (sessions s)) \<Longrightarrow> distinct (map fst (sessions (broadcastAtom e atom s)))"
    unfolding broadcastAtom_sessions by (rule distinct_map_filter)
  from assms show ?thesis
    unfolding attached_iff ws
    by (simp add: m d del: map_of_eq_Some_iff)
qed

lemma attached_handleCreateAtom:
  assumes "attached s" and "handleCreateAtom e req s = (r, s')"
  shows "attached s'"
proof -
  from handleCreateAtom_cases [OF assms(2)]
  consider "s' = s" | b content author where "json_body req = Some b"
      "get_property b ''content'' = Inr content" "get_property b ''author'' = Inr author"
      "truthy content" "typeof content = ''string''"
      "\<not> get_fails e ''atoms''" "\<not> put_fails e ''atoms''"
    by blast
  then show ?thesis
  proof cases
    case 1
    with assms(1) show ?thesis by simp
  next
    case 2
    let ?a = "new_atom e content author"
    let ?s = "s\<lparr>ctx := (ctx s)\<lparr>storage_atoms := Some (or_empty (storage_atoms (ctx s)) @ [?a]),
            effects := effects (ctx s) @ [PutAtoms (or_empty (storage_atoms (ctx s)) @ [?a])]\<rparr>\<rparr>"
    from handleCreateAtom_accepted [OF 2, of s] assms(2) have "s' = broadcastAtom e ?a ?s"
      by simp
    moreover from assms(1) have "attached ?s"
      unfolding attached_iff by (simp del: map_of_eq_Some_iff)
    ultimately show ?thesis
      by (simp add: attached_broadcastAtom)
  qed
qed

lemma delete_absent: "map_of xs k = None \<Longrightarrow> AList.delete k xs = xs"
  by (induction xs) (auto split: if_splits)

lemma attached_webSocketClose:
  assumes "attached s"
  shows "attached (webSocketClose w s)"
proof -
  have se: "sessions (webSocketClose w s) = AList.delete w (sessions s)"
    by (simp add: webSocketClose_def delete_absent)
  have ws: "webSockets (ctx (webSocketClose w s)) = AList.delete w (webSockets (ctx s))"
    by (simp add: webSocketClose_def)
  from assms show ?thesis
    unfolding attached_iff ws se
    by (simp add: AList.delete_conv' AList.distinct_delete del: map_of_eq_Some_iff)
qed

lemma attached_webSocketError:
  assumes "attached s"
  shows "attached (webSocketError w s)"
proof -
  have se: "sessions (webSocketError w s) = AList.delete w (sessions s)"
    and ws: "webSockets (ctx (webSocketError w s)) = webSockets (ctx s)"
    by (simp_all add: webSocketError_def)
  from assms show ?thesis
    unfolding attached_iff ws se
    by (simp add: AList.delete_conv' AList.distinct_delete del: map_of_eq_Some_iff)
qed

lemma attached_handleGetMetadata:
  assumes "attached s" and "handleGetMetadata e s = (x, s')"
  shows "attached s'"
proof -
  from assms(2) have "webSockets (ctx s') = webSockets (ctx s) \<and> sessions s' = sessions s"
    by (auto simp: handleGetMetadata_def Let_def split: if_splits option.splits)
  with assms(1) show ?thesis
    by (simp add: attached_def del: map_of_eq_Some_iff)
qed

lemma attached_fetch:
  assumes "attached s" and "fetch e req s = (x, s')"
  shows "attached s'"
proof -
  obtain ru su where u: "handleWebSocketUpgrade e req s = (ru, su)"
    by (cases "handleWebSocketUpgrade e req s")
  obtain rc sc where c: "handleCreateAtom e req s = (rc, sc)"
    by (cases "handleCreateAtom e req s")
  obtain rm sm where m: "handleGetMetadata e s = (rm, sm)"
    by (cases "handleGetMetadata e s")
  from assms(2) have "s' = su \<or> s' = s \<or> s' = sc \<or> s' = sm"
    by (simp add: fetch_def Let_def u c m split: if_splits)
  with assms(1) attached_handleWebSocketUpgrade [OF assms(1) u]
    attached_handleCreateAtom [OF assms(1) c] attached_handleGetMetadata [OF assms(1) m]
  show ?thesis
    by blast
qed

text \<open>
  C7. For an actor whose registry is attached, destroying the instance and constructing
  a new one while the platform still lists the connections satisfying \<open>still_open\<close>
  gives a registry with distinct connections whose pairs are exactly the pairs of a
  connection still open and its attachment. Every pair of the old registry whose
  connection is still open is in the new one, a connection without attachment is not,
  and when the old registry held every attached connection the new registry is the old
  one restricted to the connections still open.
\<close>

theorem C7_activation_round_trip:
  assumes "attached s"
  shows "distinct (map fst (sessions (reactivate still_open s))) \<and>
         set (sessions (reactivate still_open s)) =
           {(w, a). still_open w \<and> (w, Some a) \<in> set (webSockets (ctx s))} \<and>
         (\<forall>w a. (w, a) \<in> set (sessions s) \<longrightarrow> still_open w \<longrightarrow>
            (w, a) \<in> set (sessions (reactivate still_open s))) \<and>
         (\<forall>w. (w, None) \<in> set (webSockets (ctx s)) \<longrightarrow>
            w \<notin> fst ` set (sessions (reactivate still_open s))) \<and>
         ((\<forall>w a. (w, Some a) \<in> set (webSockets (ctx s)) \<longrightarrow> (w, a) \<in> set (sessions s)) \<longrightarrow>
            set (sessions (reactivate still_open s)) = {(w, a) \<in> set (sessions s). still_open w})"
proof -
  from assms have d: "distinct (map fst (webSockets (ctx s)))"
    by (simp add: attached_def)
  have att: "(w, Some a) \<in> set (webSockets (ctx s))" if "(w, a) \<in> set (sessions s)" for w a
  proof -
    from assms that have "map_of (webSockets (ctx s)) w = Some (Some a)"
      unfolding attached_def list_all_iff by (auto simp del: map_of_eq_Some_iff)
    then show ?thesis
      by (rule map_of_SomeD)
  qed
  note eq = set_sessions_reactivate [OF d, of still_open]
  have 3: "\<forall>w a. (w, a) \<in> set (sessions s) \<longrightarrow> still_open w \<longrightarrow>
            (w, a) \<in> set (sessions (reactivate still_open s))"
    unfolding eq using att by simp
  have 4: "\<forall>w. (w, None) \<in> set (webSockets (ctx s)) \<longrightarrow>
            w \<notin> fst ` set (sessions (reactivate still_open s))"
  proof (intro allI impI notI)
    fix w
    assume n: "(w, None) \<in> set (webSockets (ctx s))"
      and "w \<in> fst ` set (sessions (reactivate still_open s))"
    then obtain a where a: "(w, Some a) \<in> set (webSockets (ctx s))"
      unfolding eq by auto
    from d n have "map_of (webSockets (ctx s)) w = Some None"
      by (rule map_of_is_SomeI)
    moreover from d a have "map_of (webSockets (ctx s)) w = Some (Some a)"
      by (rule map_of_is_SomeI)
    ultimately show False
      by simp
  qed
  have 5: "(\<forall>w a. (w, Some a) \<in> set (webSockets (ctx s)) \<longrightarrow> (w, a) \<in> set (sessions s)) \<longrightarrow>
            set (sessions (reactivate still_open s)) = {(w, a) \<in> set (sessions s). still_open w}"
  proof
    assume syn: "\<forall>w a. (w, Some a) \<in> set (webSockets (ctx s)) \<longrightarrow> (w, a) \<in> set (sessions s)"
    then have "(w, Some a) \<in> set (webSockets (ctx s)) \<longleftrightarrow> (w, a) \<in> set (sessions s)" for w a
      using att by blast
    then show "set (sessions (reactivate still_open s)) = {(w, a) \<in> set (sessions s). still_open w}"
      unfolding eq by auto
  qed
  show ?thesis
    using distinct_sessions_reactivate [of still_open s] eq 3 4 5
    by (intro conjI) assumption+
qed

theorem C7_witness:
  "attached room3 \<and>
   sessions room3 = [(2, \<lparr>session_id = ''uuid-0''\<rparr>), (4, \<lparr>session_id = ''uuid-1''\<rparr>)] \<and>
   webSockets (ctx room3) =
     [(2, Some \<lparr>session_id = ''uuid-0''\<rparr>), (4, Some \<lparr>session_id = ''uuid-1''\<rparr>), (9, None)] \<and>
   set (sessions (reactivate (\<lambda>w. w \<noteq> 2) room3)) = {(4, \<lparr>session_id = ''uuid-1''\<rparr>)} \<and>
   9 \<notin> fst ` set (sessions (reactivate (\<lambda>w. w \<noteq> 2) room3)) \<and>
   set (sessions (reactivate (\<lambda>w. True) room3)) = set (sessions room3) \<and>
   sessions (reactivate (\<lambda>w. True) room3) = sessions room3"
proof -
  have se: "sessions room3 = [(2, \<lparr>session_id = ''uuid-0''\<rparr>), (4, \<lparr>session_id = ''uuid-1''\<rparr>)]"
    by (simp add: run_defs)
  have ws: "webSockets (ctx room3) =
     [(2, Some \<lparr>session_id = ''uuid-0''\<rparr>), (4, Some \<lparr>session_id = ''uuid-1''\<rparr>), (9, None)]"
    by (simp add: run_defs)
  have att: "attached room3"
    by (simp add: attached_def se ws)
  have ev: "sessions (reactivate (\<lambda>w. True) room3) = sessions room3"
    by (simp add: reactivate_def constructor_def restore_def ws se)
  have 1: "{(w, a). w \<noteq> 2 \<and> (w, Some a) \<in> set (webSockets (ctx room3))} = {(4, \<lparr>session_id = ''uuid-1''\<rparr>)}"
    unfolding ws by auto
  have 2: "{(w, a). True \<and> (w, Some a) \<in> set (webSockets (ctx room3))} = set (sessions room3)"
    unfolding ws se by auto
  have 3: "(9, None) \<in> set (webSockets (ctx room3))"
    unfolding ws by simp
  from C7_activation_round_trip [OF att, of "\<lambda>w. w \<noteq> 2"] C7_activation_round_trip [OF att, of "\<lambda>w. True"]
    1 2 3 att se ws ev
  show ?thesis
    by simp
qed

end
